theory Spec2Isabelle
  imports Main "HOL-Library.Word"
begin

section \<open>Vectors, boxes and voxel buffers\<close>

text \<open>
  \<open>Vector3i\<close>, \<open>Box3i\<close>, \<open>VoxelBufferInternal\<close>, \<open>VoxelDataBlock\<close> and
  \<open>VoxelDataMap\<close> are used by \<open>storage/voxel_data.h\<close> but declared in headers that are
  not part of the sources at hand. Coordinates are mathematical integers here.
\<close>

type_synonym Vector3i = "int \<times> int \<times> int"

fun v3_add :: "Vector3i \<Rightarrow> Vector3i \<Rightarrow> Vector3i" where
  "v3_add (ax, ay, az) (bx, by, bz) = (ax + bx, ay + by, az + bz)"

fun v3_sub :: "Vector3i \<Rightarrow> Vector3i \<Rightarrow> Vector3i" where
  "v3_sub (ax, ay, az) (bx, by, bz) = (ax - bx, ay - by, az - bz)"

fun v3_floordiv :: "Vector3i \<Rightarrow> int \<Rightarrow> Vector3i" where
  "v3_floordiv (ax, ay, az) d = (ax div d, ay div d, az div d)"

fun v3_mod :: "Vector3i \<Rightarrow> int \<Rightarrow> Vector3i" where
  "v3_mod (ax, ay, az) d = (ax mod d, ay mod d, az mod d)"

fun v3_scale :: "Vector3i \<Rightarrow> int \<Rightarrow> Vector3i" where
  "v3_scale (ax, ay, az) d = (ax * d, ay * d, az * d)"

definition v3_create :: "int \<Rightarrow> Vector3i" where
  "v3_create v = (v, v, v)"

record Box3i =
  box_pos :: Vector3i
  box_size :: Vector3i

text \<open>The default-constructed box \<open>Box3i()\<close> that \<open>write_box\<close> returns when it cancels.\<close>

definition Box3i_default :: Box3i where
  "Box3i_default = \<lparr>box_pos = (0, 0, 0), box_size = (0, 0, 0)\<rparr>"

fun in_range :: "int \<Rightarrow> int \<Rightarrow> int \<Rightarrow> bool" where
  "in_range p s v = (p \<le> v \<and> v < p + s)"

fun box_contains :: "Box3i \<Rightarrow> Vector3i \<Rightarrow> bool" where
  "box_contains b (x, y, z) =
     (case (box_pos b, box_size b) of
        ((px, py, pz), (sx, sy, sz)) \<Rightarrow> in_range px sx x \<and> in_range py sy y \<and> in_range pz sz z)"

text \<open>
  Modelled from the spec: \<open>Box3i::clipped\<close> is called by \<open>write_box\<close> but its body is
  missing. The spec says the box is clipped to the bounds and that the result is the
  intersection of the two boxes; an empty intersection has size 0 on the axis where the
  boxes miss each other.
\<close>

fun clip_range :: "int \<Rightarrow> int \<Rightarrow> int \<Rightarrow> int \<Rightarrow> int \<times> int" where
  "clip_range p s lim_p lim_s =
     (let lo = max p lim_p; hi = min (p + s) (lim_p + lim_s)
      in (lo, max 0 (hi - lo)))"

definition clipped :: "Box3i \<Rightarrow> Box3i \<Rightarrow> Box3i" where
  "clipped b lim =
     (case (box_pos b, box_size b, box_pos lim, box_size lim) of
        ((px, py, pz), (sx, sy, sz), (lx, ly, lz), (tx, ty, tz)) \<Rightarrow>
          (let (x, w) = clip_range px sx lx tx;
               (y, h) = clip_range py sy ly ty;
               (z, d) = clip_range pz sz lz tz
           in \<lparr>box_pos = (x, y, z), box_size = (w, h, d)\<rparr>))"

text \<open>
  Modelled from the spec: the blocks a voxel box intersects. \<open>downscaled\<close> gives the box of
  block coordinates covering a voxel box (floor division by the block size), and
  \<open>cells_zxy\<close> lists the cells of a box in the order of \<open>for_each_cell_zxy\<close>
  (z outermost, then x, then y).
\<close>

fun downscale_range :: "int \<Rightarrow> int \<Rightarrow> int \<Rightarrow> int \<times> int" where
  "downscale_range p s step =
     (if s \<le> 0 then (p div step, 0)
      else (p div step, (p + s - 1) div step - p div step + 1))"

definition downscaled :: "Box3i \<Rightarrow> int \<Rightarrow> Box3i" where
  "downscaled b step =
     (case (box_pos b, box_size b) of
        ((px, py, pz), (sx, sy, sz)) \<Rightarrow>
          (let (x, w) = downscale_range px sx step;
               (y, h) = downscale_range py sy step;
               (z, d) = downscale_range pz sz step
           in \<lparr>box_pos = (x, y, z), box_size = (w, h, d)\<rparr>))"

definition cells_zxy :: "Box3i \<Rightarrow> Vector3i list" where
  "cells_zxy b =
     (case (box_pos b, box_size b) of
        ((px, py, pz), (sx, sy, sz)) \<Rightarrow>
          concat (map (\<lambda>z. concat (map (\<lambda>x. map (\<lambda>y. (x, y, z)) [py..py + sy - 1])
                                         [px..px + sx - 1]))
                      [pz..pz + sz - 1]))"

text \<open>
  A voxel value is the integer member of \<open>VoxelSingleValue\<close> (\<open>uint64_t\<close>, as the
  \<open>value\<close> parameter of \<open>try_set_voxel\<close>). A buffer is a dense grid of a given size with
  one value per channel and local position.
\<close>

type_synonym voxel_value = "64 word"

record VoxelBufferInternal =
  buf_size :: Vector3i
  buf_data :: "nat \<Rightarrow> Vector3i \<Rightarrow> voxel_value"

text \<open>Modelled from the spec: a freshly created buffer holds the default value 0 everywhere.\<close>

definition VoxelBufferInternal_create :: "Vector3i \<Rightarrow> VoxelBufferInternal" where
  "VoxelBufferInternal_create sz = \<lparr>buf_size = sz, buf_data = (\<lambda>c p. 0)\<rparr>"

definition VoxelBufferInternal_get_voxel ::
  "VoxelBufferInternal \<Rightarrow> Vector3i \<Rightarrow> nat \<Rightarrow> voxel_value" where
  "VoxelBufferInternal_get_voxel b p c = buf_data b c p"


text \<open>
  Modelled from the spec: the buffer-level box write applies \<open>action\<close> to every voxel of
  one channel inside a local box; the action receives the voxel's position in the volume
  (local position plus the block origin) and the old value, and returns the new one.
\<close>

definition VoxelBufferInternal_write_box ::
  "VoxelBufferInternal \<Rightarrow> Box3i \<Rightarrow> nat \<Rightarrow> (Vector3i \<Rightarrow> voxel_value \<Rightarrow> voxel_value)
     \<Rightarrow> Vector3i \<Rightarrow> VoxelBufferInternal" where
  "VoxelBufferInternal_write_box b local_box channel action offset =
     b\<lparr>buf_data := (\<lambda>c p.
          if c = channel \<and> box_contains local_box p
          then action (v3_add p offset) (buf_data b c p)
          else buf_data b c p)\<rparr>"


section \<open>The volume store (\<open>storage/voxel_data.h\<close>)\<close>

text \<open>
  Modelled from the spec: \<open>VoxelDataBlock\<close> (its header is missing). An entry of a LOD map
  either holds a voxel buffer or is known to be empty (\<open>voxels = None\<close>, the null shared
  pointer); it carries the \<open>edited\<close> flag and the "needs LOD update" flag.
\<close>

record VoxelDataBlock =
  voxels :: "VoxelBufferInternal option"
  edited :: bool
  needs_lodding :: bool



text \<open>
  Modelled from the spec: \<open>VoxelDataMap\<close> (its header is missing), one sparse map from
  block coordinate to block, with the power-of-two block size it was created with.
  \<open>pos >> po2\<close> on signed coordinates is floor division, \<open>pos & mask\<close> the matching
  remainder.
\<close>

record VoxelDataMap =
  blocks :: "Vector3i \<rightharpoonup> VoxelDataBlock"
  block_size_pow2 :: nat

definition VoxelDataMap_get_block_size :: "VoxelDataMap \<Rightarrow> int" where
  "VoxelDataMap_get_block_size m = 2 ^ block_size_pow2 m"

definition VoxelDataMap_voxel_to_block :: "VoxelDataMap \<Rightarrow> Vector3i \<Rightarrow> Vector3i" where
  "VoxelDataMap_voxel_to_block m p = v3_floordiv p (VoxelDataMap_get_block_size m)"

definition VoxelDataMap_block_to_voxel :: "VoxelDataMap \<Rightarrow> Vector3i \<Rightarrow> Vector3i" where
  "VoxelDataMap_block_to_voxel m bp = v3_scale bp (VoxelDataMap_get_block_size m)"

definition VoxelDataMap_to_local :: "VoxelDataMap \<Rightarrow> Vector3i \<Rightarrow> Vector3i" where
  "VoxelDataMap_to_local m p = v3_mod p (VoxelDataMap_get_block_size m)"

definition VoxelDataMap_get_block :: "VoxelDataMap \<Rightarrow> Vector3i \<Rightarrow> VoxelDataBlock option" where
  "VoxelDataMap_get_block m bp = blocks m bp"

definition VoxelDataMap_has_block :: "VoxelDataMap \<Rightarrow> Vector3i \<Rightarrow> bool" where
  "VoxelDataMap_has_block m bp = (blocks m bp \<noteq> None)"

definition VoxelDataMap_is_area_fully_loaded :: "VoxelDataMap \<Rightarrow> Box3i \<Rightarrow> bool" where
  "VoxelDataMap_is_area_fully_loaded m voxel_box =
     list_all (VoxelDataMap_has_block m)
       (cells_zxy (downscaled voxel_box (VoxelDataMap_get_block_size m)))"

text \<open>
  Modelled from the spec: \<open>VoxelDataMap::write_box\<close>, called by \<open>VoxelData::write_box\<close>
  with the voxel box, the channel, the caller's action and a generation callback. For every
  block the box intersects: if the block is absent it is created and the callback fills its
  buffer (a block entry without buffer gets one the same way); then the action is applied
  to the part of the box that lies in the block.
\<close>

definition VoxelDataMap_write_box_cell ::
  "Box3i \<Rightarrow> nat \<Rightarrow> (Vector3i \<Rightarrow> voxel_value \<Rightarrow> voxel_value)
     \<Rightarrow> (VoxelBufferInternal \<Rightarrow> Vector3i \<Rightarrow> VoxelBufferInternal)
     \<Rightarrow> Vector3i \<Rightarrow> VoxelDataMap \<Rightarrow> VoxelDataMap" where
  "VoxelDataMap_write_box_cell voxel_box channel action gen_func block_pos m =
     (let bs = VoxelDataMap_get_block_size m;
          block_origin = VoxelDataMap_block_to_voxel m block_pos;
          generated = gen_func (VoxelBufferInternal_create (v3_create bs)) block_origin;
          block = (case VoxelDataMap_get_block m block_pos of
                     None \<Rightarrow> \<lparr>voxels = Some generated, edited = False, needs_lodding = False\<rparr>
                   | Some b \<Rightarrow> b);
          buffer = (case voxels block of None \<Rightarrow> generated | Some v \<Rightarrow> v);
          local_box = clipped
            \<lparr>box_pos = v3_sub (box_pos voxel_box) block_origin, box_size = box_size voxel_box\<rparr>
            \<lparr>box_pos = (0, 0, 0), box_size = v3_create bs\<rparr>;
          written = VoxelBufferInternal_write_box buffer local_box channel action block_origin
      in m\<lparr>blocks := (blocks m)(block_pos \<mapsto> block\<lparr>voxels := Some written\<rparr>)\<rparr>)"

definition VoxelDataMap_write_box ::
  "VoxelDataMap \<Rightarrow> Box3i \<Rightarrow> nat \<Rightarrow> (Vector3i \<Rightarrow> voxel_value \<Rightarrow> voxel_value)
     \<Rightarrow> (VoxelBufferInternal \<Rightarrow> Vector3i \<Rightarrow> VoxelBufferInternal) \<Rightarrow> VoxelDataMap" where
  "VoxelDataMap_write_box m voxel_box channel action gen_func =
     fold (VoxelDataMap_write_box_cell voxel_box channel action gen_func)
       (cells_zxy (downscaled voxel_box (VoxelDataMap_get_block_size m))) m"

text \<open>
  The collaborators of the store. A generator is what \<open>generate_block\<close> does to the
  buffer of a query \<open>{voxels, origin, lod}\<close>; a modifier is what it does to a buffer at an
  origin; \<open>Ref<...>\<close> handles that may be null are options. The persistence stream is
  opaque: no operation below calls it.
\<close>

type_synonym VoxelGenerator = "VoxelBufferInternal \<Rightarrow> Vector3i \<Rightarrow> nat \<Rightarrow> VoxelBufferInternal"

type_synonym VoxelModifier = "VoxelBufferInternal \<Rightarrow> Vector3i \<Rightarrow> VoxelBufferInternal"

type_synonym VoxelModifierStack = "VoxelModifier list"

typedecl VoxelStream

text \<open>
  Modelled from the spec: applying the modifier stack runs the modifiers in their
  configured order, each over the result of the previous one.
\<close>

definition VoxelModifierStack_apply ::
  "VoxelModifierStack \<Rightarrow> VoxelBufferInternal \<Rightarrow> Vector3i \<Rightarrow> VoxelBufferInternal" where
  "VoxelModifierStack_apply ms b origin = fold (\<lambda>m acc. m acc origin) ms b"

text \<open>
  The state members of \<open>VoxelData\<close>. \<open>lods\<close> is the array \<open>_lods\<close> of
  \<open>MAX_LOD\<close> maps, read by index (the per-LOD lock and the settings mutex are not part of
  the sequential model); \<open>_lod_count\<close> is a \<open>uint8_t\<close>.
\<close>

record VoxelData =
  lods :: "nat \<Rightarrow> VoxelDataMap"
  bounds_in_voxels :: Box3i
  lod_count :: "8 word"
  streaming_enabled :: bool
  modifiers :: VoxelModifierStack
  generator :: "VoxelGenerator option"
  stream :: "VoxelStream option"

text \<open>
  The length of \<open>_lods\<close>: \<open>constants::MAX_LOD\<close> is declared elsewhere; the comment on
  \<open>_lods\<close> gives it as 24.
\<close>

definition MAX_LOD :: nat where
  "MAX_LOD = 24"

text \<open>
  A freshly constructed store, from the member initialisers of the class:
  \<open>_lod_count = 1\<close>, \<open>_streaming_enabled = true\<close>, null generator and stream, an empty
  modifier stack, a default box and empty maps. The block size of the maps is a parameter.
\<close>

definition VoxelData_new :: "nat \<Rightarrow> VoxelData" where
  "VoxelData_new po2 =
     \<lparr>lods = (\<lambda>i. \<lparr>blocks = Map.empty, block_size_pow2 = po2\<rparr>),
      bounds_in_voxels = Box3i_default,
      lod_count = 1,
      streaming_enabled = True,
      modifiers = [],
      generator = None,
      stream = None\<rparr>"

definition get_block_size :: "VoxelData \<Rightarrow> int" where
  "get_block_size s = VoxelDataMap_get_block_size (lods s 0)"

definition get_block_size_po2 :: "VoxelData \<Rightarrow> nat" where
  "get_block_size_po2 s = block_size_pow2 (lods s 0)"

definition voxel_to_block :: "VoxelData \<Rightarrow> Vector3i \<Rightarrow> Vector3i" where
  "voxel_to_block s p = VoxelDataMap_voxel_to_block (lods s 0) p"

definition get_lod_count :: "VoxelData \<Rightarrow> 32 word" where
  "get_lod_count s = ucast (lod_count s)"

definition get_bounds :: "VoxelData \<Rightarrow> Box3i" where
  "get_bounds s = bounds_in_voxels s"

definition get_generator :: "VoxelData \<Rightarrow> VoxelGenerator option" where
  "get_generator s = generator s"

definition get_stream :: "VoxelData \<Rightarrow> VoxelStream option" where
  "get_stream s = stream s"

definition get_modifiers :: "VoxelData \<Rightarrow> VoxelModifierStack" where
  "get_modifiers s = modifiers s"

definition is_streaming_enabled :: "VoxelData \<Rightarrow> bool" where
  "is_streaming_enabled s = streaming_enabled s"


text \<open>
  Modelled from the spec: \<open>is_area_loaded\<close> is declared in the class but its body is
  missing. An area is loaded when every block it intersects is resident at LOD 0. The
  comment on \<open>_streaming_enabled\<close> says that blocks have a "not loaded" status only
  while streaming is enabled; with streaming disabled a block that is not stored is
  obtained from the generator, so every area counts as loaded.
\<close>

definition is_area_loaded :: "VoxelData \<Rightarrow> Box3i \<Rightarrow> bool" where
  "is_area_loaded s p_voxels_box =
     (if \<not> is_streaming_enabled s then True
      else VoxelDataMap_is_area_fully_loaded (lods s 0) p_voxels_box)"

definition has_block :: "VoxelData \<Rightarrow> Vector3i \<Rightarrow> nat \<Rightarrow> bool" where
  "has_block s bpos lod_index = VoxelDataMap_has_block (lods s lod_index) bpos"

text \<open>
  The status of one block at LOD 0, as the comment on \<open>_streaming_enabled\<close> gives it:
  with streaming disabled every block counts as loaded; with streaming enabled a block is
  loaded when the LOD-0 map has an entry for it.
\<close>

definition is_block_loaded :: "VoxelData \<Rightarrow> Vector3i \<Rightarrow> bool" where
  "is_block_loaded s bp =
     (\<not> is_streaming_enabled s \<or> has_block s bp 0)"

text \<open>
  \<open>write_box\<close>, the read-modify-write operation on one channel. The result is the
  returned box and the store afterwards. The source reaches the LOD-0 map as
  \<open>_data->lods[0]\<close>; the maps of the class are \<open>_lods\<close>, so this is \<open>lods s 0\<close>.
  The callback handed to the map is the lambda of the source: it runs the generator, when
  there is one, on the new buffer at LOD 0.
\<close>

definition write_box ::
  "VoxelData \<Rightarrow> Box3i \<Rightarrow> nat \<Rightarrow> (Vector3i \<Rightarrow> voxel_value \<Rightarrow> voxel_value)
     \<Rightarrow> Box3i \<times> VoxelData" where
  "write_box s p_voxel_box channel_index action =
     (let voxel_box = clipped p_voxel_box (get_bounds s)
      in if \<not> is_area_loaded s voxel_box then (Box3i_default, s)
         else
           (let gen = generator s;
                data_lod0 = VoxelDataMap_write_box (lods s 0) voxel_box channel_index action
                  (\<lambda>voxels pos. case gen of Some g \<Rightarrow> g voxels pos 0 | None \<Rightarrow> voxels)
            in (voxel_box, s\<lparr>lods := (lods s)(0 := data_lod0)\<rparr>)))"


text \<open>
  Modelled from the spec: \<open>try_set_block_buffer\<close> is declared in the class but its body
  is missing. Its comment and the spec agree: a buffer whose size differs from the block
  size is rejected with \<open>false\<close> and nothing is stored; otherwise the buffer is inserted
  if the coordinate has no entry, an existing entry is not overwritten, and the result is
  \<open>true\<close>.
\<close>

definition try_set_block_buffer ::
  "VoxelData \<Rightarrow> Vector3i \<Rightarrow> nat \<Rightarrow> VoxelBufferInternal \<Rightarrow> bool \<Rightarrow> bool \<times> VoxelData" where
  "try_set_block_buffer s block_position lod_index buffer is_edited =
     (let data_lod = lods s lod_index
      in if buf_size buffer \<noteq> v3_create (get_block_size s) then (False, s)
         else if VoxelDataMap_has_block data_lod block_position then (True, s)
         else (True, s\<lparr>lods := (lods s)(lod_index := data_lod\<lparr>blocks := (blocks data_lod)
                 (block_position \<mapsto>
                    \<lparr>voxels = Some buffer, edited = is_edited, needs_lodding = False\<rparr>)\<rparr>)\<rparr>))"

text \<open>
  Modelled from the spec: \<open>get_missing_blocks\<close> (body missing) returns the requested
  coordinates that have no entry at the given LOD, in the order requested; bounds are not
  consulted.
\<close>

definition get_missing_blocks :: "VoxelData \<Rightarrow> Vector3i list \<Rightarrow> nat \<Rightarrow> Vector3i list" where
  "get_missing_blocks s block_positions lod_index =
     filter (\<lambda>bp. \<not> VoxelDataMap_has_block (lods s lod_index) bp) block_positions"



text \<open>
  Modelled from the spec: \<open>reset_maps\<close> (body missing; "Clears voxel data. Keeps
  modifiers, generator and settings.") takes the settings lock and empties the map of every
  LOD.
\<close>

definition reset_maps_no_settings_lock :: "VoxelData \<Rightarrow> VoxelData" where
  "reset_maps_no_settings_lock s = s\<lparr>lods := (\<lambda>i. (lods s i)\<lparr>blocks := Map.empty\<rparr>)\<rparr>"

definition reset_maps :: "VoxelData \<Rightarrow> VoxelData" where
  "reset_maps s = reset_maps_no_settings_lock s"


text \<open>
  What the LOD-0 map stores for a voxel: the buffer of a block entry, if the entry exists
  and has one, and the value of a voxel in it. \<open>observed_voxel\<close> is the stored value
  or, where nothing is stored, the value the generation callback gives the voxel.
\<close>

definition stored_buffer :: "VoxelDataMap \<Rightarrow> Vector3i \<Rightarrow> VoxelBufferInternal option" where
  "stored_buffer m bp = (case blocks m bp of None \<Rightarrow> None | Some b \<Rightarrow> voxels b)"

definition stored_voxel :: "VoxelDataMap \<Rightarrow> Vector3i \<Rightarrow> nat \<Rightarrow> voxel_value option" where
  "stored_voxel m p c =
     map_option (\<lambda>buffer. VoxelBufferInternal_get_voxel buffer (VoxelDataMap_to_local m p) c)
       (stored_buffer m (VoxelDataMap_voxel_to_block m p))"

definition observed_voxel ::
  "VoxelDataMap \<Rightarrow> (VoxelBufferInternal \<Rightarrow> Vector3i \<Rightarrow> VoxelBufferInternal)
     \<Rightarrow> Vector3i \<Rightarrow> nat \<Rightarrow> voxel_value" where
  "observed_voxel m gen_func p c =
     (let bp = VoxelDataMap_voxel_to_block m p;
          buffer = (case stored_buffer m bp of
                      Some b \<Rightarrow> b
                    | None \<Rightarrow> gen_func (VoxelBufferInternal_create
                                 (v3_create (VoxelDataMap_get_block_size m)))
                               (VoxelDataMap_block_to_voxel m bp))
      in VoxelBufferInternal_get_voxel buffer (VoxelDataMap_to_local m p) c)"

text \<open>
  The store of the scenarios below: a fresh store with blocks of 16 voxels and the bounds
  set to the box from (0,0,0) to (256,256,256); LOD count 1, no generator, no stream.
  \<open>zero_block\<close> is a block-sized buffer of zeros, \<open>nines_block\<close> one of nines.
\<close>

definition bounds_256 :: Box3i where
  "bounds_256 = \<lparr>box_pos = (0, 0, 0), box_size = (256, 256, 256)\<rparr>"

definition scenario_store :: VoxelData where
  "scenario_store = (VoxelData_new 4)\<lparr>bounds_in_voxels := bounds_256\<rparr>"

definition zero_block :: VoxelBufferInternal where
  "zero_block = VoxelBufferInternal_create (16, 16, 16)"


text \<open>
  \<open>loaded_store\<close> is the scenario store after the block at the origin was loaded as
  zeros; \<open>straddling_box\<close> lies half outside the bounds. \<open>generating_store\<close> is the
  scenario store with streaming disabled, a generator that fills a buffer with ones and
  one modifier that fills it with nines.
\<close>

definition loaded_store :: VoxelData where
  "loaded_store = snd (try_set_block_buffer scenario_store (0, 0, 0) 0 zero_block False)"

definition straddling_box :: Box3i where
  "straddling_box = \<lparr>box_pos = (-8, -8, -8), box_size = (16, 16, 16)\<rparr>"

definition ones_generator :: VoxelGenerator where
  "ones_generator buffer origin lod = buffer\<lparr>buf_data := (\<lambda>c p. 1)\<rparr>"

definition nines_modifier :: VoxelModifier where
  "nines_modifier buffer origin = buffer\<lparr>buf_data := (\<lambda>c p. 9)\<rparr>"

definition generating_store :: VoxelData where
  "generating_store = scenario_store\<lparr>streaming_enabled := False,
     modifiers := [nines_modifier], generator := Some ones_generator\<rparr>"

text \<open>The action that leaves every voxel as it is.\<close>

definition keep_value :: "Vector3i \<Rightarrow> voxel_value \<Rightarrow> voxel_value" where
  "keep_value p v = v"

section \<open>The block allocator (\<open>storage/voxel_memory_pool.h\<close>)\<close>

text \<open>
  The members of \<open>VoxelMemoryPool\<close>: \<open>_pools\<close> maps a size to the free blocks of that
  size (a block is its address), \<open>_used_blocks\<close> is an \<open>unsigned int\<close> starting at 0.
  \<open>next_address\<close> stands for the system allocator: the addresses from it on have never
  been handed out.
\<close>

record VoxelMemoryPool =
  pools :: "nat \<rightharpoonup> nat list"
  used_blocks :: "32 word"
  next_address :: nat

definition VoxelMemoryPool_new :: VoxelMemoryPool where
  "VoxelMemoryPool_new = \<lparr>pools = Map.empty, used_blocks = 0, next_address = 0\<rparr>"

text \<open>
  Modelled from the spec: the bodies of \<open>allocate\<close>, \<open>recycle\<close> and
  \<open>debug_get_used_blocks\<close> are missing. \<open>allocate\<close> pops a block from the free list of
  the size or allocates a fresh one; \<open>recycle\<close> pushes the block back on the free list of
  the size; the counter of live allocations goes up and down by one.
\<close>

definition get_or_create_pool :: "VoxelMemoryPool \<Rightarrow> nat \<Rightarrow> nat list" where
  "get_or_create_pool p sz = (case pools p sz of None \<Rightarrow> [] | Some free \<Rightarrow> free)"

definition allocate :: "VoxelMemoryPool \<Rightarrow> nat \<Rightarrow> nat \<times> VoxelMemoryPool" where
  "allocate p sz =
     (let free = get_or_create_pool p sz
      in if free \<noteq> []
         then (last free, p\<lparr>pools := (pools p)(sz \<mapsto> butlast free),
                             used_blocks := used_blocks p + 1\<rparr>)
         else (next_address p, p\<lparr>pools := (pools p)(sz \<mapsto> []),
                                  used_blocks := used_blocks p + 1,
                                  next_address := Suc (next_address p)\<rparr>))"

definition recycle :: "VoxelMemoryPool \<Rightarrow> nat \<Rightarrow> nat \<Rightarrow> VoxelMemoryPool" where
  "recycle p block sz =
     p\<lparr>pools := (pools p)(sz \<mapsto> get_or_create_pool p sz @ [block]),
       used_blocks := used_blocks p - 1\<rparr>"

definition debug_get_used_blocks :: "VoxelMemoryPool \<Rightarrow> 32 word" where
  "debug_get_used_blocks p = used_blocks p"

text \<open>
  A sequence of calls, run against the pool together with the ledger of outstanding
  blocks (address and size of every block allocated and not yet recycled). A \<open>recycle\<close>
  is matched when it returns an outstanding block with the size it was allocated with; a
  sequence with an unmatched \<open>recycle\<close> has no run.
\<close>

datatype pool_call = Allocate nat | Recycle nat nat

fun run_calls ::
  "pool_call list \<Rightarrow> VoxelMemoryPool \<times> (nat \<times> nat) list
     \<Rightarrow> (VoxelMemoryPool \<times> (nat \<times> nat) list) option" where
  "run_calls [] st = Some st"
| "run_calls (Allocate sz # cs) (p, outstanding) =
     (let (b, p') = allocate p sz in run_calls cs (p', (b, sz) # outstanding))"
| "run_calls (Recycle b sz # cs) (p, outstanding) =
     (if (b, sz) \<in> set outstanding
      then run_calls cs (recycle p b sz, remove1 (b, sz) outstanding)
      else None)"

section \<open>Properties of the volume store\<close>

subsection \<open>Boxes and the blocks they intersect\<close>

lemma cells_zxy_iff: "p \<in> set (cells_zxy b) \<longleftrightarrow> box_contains b p"
proof -
  obtain x y z where p: "p = (x, y, z)" by (cases p)
  obtain px py pz where bp: "box_pos b = (px, py, pz)" by (cases "box_pos b")
  obtain sx sy sz where bs: "box_size b = (sx, sy, sz)" by (cases "box_size b")
  have "(x, y, z) \<in> set (cells_zxy b)
        \<longleftrightarrow> z \<in> {pz..pz + sz - 1} \<and> x \<in> {px..px + sx - 1} \<and> y \<in> {py..py + sy - 1}"
    unfolding cells_zxy_def bp bs by (simp add: image_iff) blast
  then show ?thesis using p bp bs by auto
qed

lemma downscale_range_contains:
  assumes "0 < step" "in_range p s v" "downscale_range p s step = (q, w)"
  shows "in_range q w (v div step)"
proof -
  from assms(2) have s: "0 < s" and lo: "p \<le> v" and hi: "v \<le> p + s - 1" by auto
  have "p div step \<le> v div step" using lo assms(1) by (simp add: zdiv_mono1)
  moreover have "v div step \<le> (p + s - 1) div step" using hi assms(1) by (simp add: zdiv_mono1)
  ultimately show ?thesis using assms(3) s by auto
qed

lemma downscaled_contains:
  assumes "0 < step" "box_contains b p"
  shows "box_contains (downscaled b step) (v3_floordiv p step)"
proof -
  obtain x y z where p: "p = (x, y, z)" by (cases p)
  obtain px py pz where bp: "box_pos b = (px, py, pz)" by (cases "box_pos b")
  obtain sx sy sz where bs: "box_size b = (sx, sy, sz)" by (cases "box_size b")
  obtain qx wx where dx: "downscale_range px sx step = (qx, wx)"
    by (cases "downscale_range px sx step")
  obtain qy wy where dy: "downscale_range py sy step = (qy, wy)"
    by (cases "downscale_range py sy step")
  obtain qz wz where dz: "downscale_range pz sz step = (qz, wz)"
    by (cases "downscale_range pz sz step")
  from assms(2) have r: "in_range px sx x" "in_range py sy y" "in_range pz sz z"
    using p bp bs by simp_all
  have "in_range qx wx (x div step)" "in_range qy wy (y div step)" "in_range qz wz (z div step)"
    using downscale_range_contains[OF assms(1) r(1) dx]
      downscale_range_contains[OF assms(1) r(2) dy]
      downscale_range_contains[OF assms(1) r(3) dz] by blast+
  then show ?thesis
    using p bp bs dx dy dz by (simp add: downscaled_def del: downscale_range.simps in_range.simps)
qed

lemma block_size_pos: "0 < VoxelDataMap_get_block_size m"
  by (simp add: VoxelDataMap_get_block_size_def)

lemma voxel_block_in_cells:
  "box_contains box p \<Longrightarrow>
   VoxelDataMap_voxel_to_block m p
     \<in> set (cells_zxy (downscaled box (VoxelDataMap_get_block_size m)))"
  by (simp add: cells_zxy_iff VoxelDataMap_voxel_to_block_def downscaled_contains block_size_pos)

subsection \<open>The gate of \<open>write_box\<close>\<close>

text \<open>
  C1. While streaming is enabled: let \<open>B\<close> be any box and \<open>p\<close> a voxel of \<open>B\<close>
  clipped to the bounds. If the block holding \<open>p\<close> has no entry in the LOD-0 map,
  \<open>write_box\<close> returns the empty box \<open>Box3i()\<close> and the store, with every LOD map
  and every buffer in it, is exactly what it was.
\<close>

theorem write_box_unloaded_area_cancelled:
  assumes "is_streaming_enabled s"
    and "box_contains (clipped B (get_bounds s)) p"
    and "\<not> has_block s (voxel_to_block s p) 0"
  shows "write_box s B channel_index action = (Box3i_default, s)"
proof -
  from assms(3)
  have nb: "\<not> VoxelDataMap_has_block (lods s 0) (VoxelDataMap_voxel_to_block (lods s 0) p)"
    by (simp add: has_block_def voxel_to_block_def)
  have "\<not> VoxelDataMap_is_area_fully_loaded (lods s 0) (clipped B (get_bounds s))"
    unfolding VoxelDataMap_is_area_fully_loaded_def list_all_iff
    using voxel_block_in_cells[OF assms(2), of "lods s 0"] nb by blast
  then have "\<not> is_area_loaded s (clipped B (get_bounds s))"
    using assms(1) by (simp add: is_area_loaded_def)
  then show ?thesis by (simp add: write_box_def)
qed

theorem write_box_unloaded_area_cancelled_witness:
  "is_streaming_enabled scenario_store
   \<and> box_contains (clipped straddling_box (get_bounds scenario_store)) (3, 4, 5)
   \<and> \<not> has_block scenario_store (voxel_to_block scenario_store (3, 4, 5)) 0
   \<and> write_box scenario_store straddling_box 0 keep_value = (Box3i_default, scenario_store)"
proof -
  have h0: "is_streaming_enabled scenario_store"
    by (simp add: is_streaming_enabled_def scenario_store_def VoxelData_new_def)
  have h1: "box_contains (clipped straddling_box (get_bounds scenario_store)) (3, 4, 5)"
    by (simp add: clipped_def get_bounds_def scenario_store_def bounds_256_def
        straddling_box_def)
  have h2: "\<not> has_block scenario_store (voxel_to_block scenario_store (3, 4, 5)) 0"
    by (simp add: has_block_def VoxelDataMap_has_block_def scenario_store_def VoxelData_new_def)
  show ?thesis
    using h0 h1 h2 write_box_unloaded_area_cancelled[OF h0 h1 h2, of 0 keep_value] by simp
qed

subsection \<open>Inserting block buffers\<close>




lemma scenario_block_size: "get_block_size scenario_store = 16"
  by (simp add: get_block_size_def VoxelDataMap_get_block_size_def scenario_store_def
      VoxelData_new_def)



text \<open>
  C5. For any block coordinate and any LOD index of the array, \<open>try_set_block_buffer\<close>
  with a buffer whose size differs from the configured block size returns \<open>false\<close> and
  leaves the store unchanged; a coordinate that was missing is still reported by
  \<open>get_missing_blocks\<close> afterwards.
\<close>

theorem try_set_block_buffer_wrong_size:
  assumes "lod_index < MAX_LOD"
    and "buf_size b \<noteq> v3_create (get_block_size s)"
  shows "try_set_block_buffer s bp lod_index b e = (False, s)
    \<and> (\<not> has_block s bp lod_index \<longrightarrow>
         get_missing_blocks (snd (try_set_block_buffer s bp lod_index b e)) [bp] lod_index = [bp])"
  using assms
  by (simp add: try_set_block_buffer_def get_missing_blocks_def has_block_def)

theorem try_set_block_buffer_wrong_size_witness:
  "(0::nat) < MAX_LOD
   \<and> buf_size (VoxelBufferInternal_create (8, 8, 8)) \<noteq> v3_create (get_block_size scenario_store)
   \<and> \<not> has_block scenario_store (1, 2, 3) 0
   \<and> try_set_block_buffer scenario_store (1, 2, 3) 0 (VoxelBufferInternal_create (8, 8, 8)) True
       = (False, scenario_store)
   \<and> get_missing_blocks
       (snd (try_set_block_buffer scenario_store (1, 2, 3) 0
               (VoxelBufferInternal_create (8, 8, 8)) True)) [(1, 2, 3)] 0 = [(1, 2, 3)]"
proof -
  have h0: "(0::nat) < MAX_LOD" by (simp add: MAX_LOD_def)
  have h1: "buf_size (VoxelBufferInternal_create (8, 8, 8))
              \<noteq> v3_create (get_block_size scenario_store)"
    by (simp add: VoxelBufferInternal_create_def scenario_block_size v3_create_def)
  have h2: "\<not> has_block scenario_store (1, 2, 3) 0"
    by (simp add: has_block_def VoxelDataMap_has_block_def scenario_store_def VoxelData_new_def)
  note t = try_set_block_buffer_wrong_size[OF h0 h1, of "(1, 2, 3)" True]
  from t have a: "try_set_block_buffer scenario_store (1, 2, 3) 0
       (VoxelBufferInternal_create (8, 8, 8)) True = (False, scenario_store)"
    by (rule conjunct1)
  from t h2 have b: "get_missing_blocks
       (snd (try_set_block_buffer scenario_store (1, 2, 3) 0
               (VoxelBufferInternal_create (8, 8, 8)) True)) [(1, 2, 3)] 0 = [(1, 2, 3)]"
    by blast
  from h0 h1 h2 a b show ?thesis by blast
qed

subsection \<open>Clearing the maps and the fresh store\<close>

text \<open>
  C9. \<open>reset_maps\<close> leaves no block entry at any LOD, and the generator, the stream, the
  modifier stack, the bounds, the LOD count and the streaming setting are what they were
  (so is the block size of the maps).
\<close>

theorem reset_maps_clears_storage_only:
  "(\<forall>i bp. blocks (lods (reset_maps s) i) bp = None)
   \<and> get_generator (reset_maps s) = get_generator s
   \<and> get_stream (reset_maps s) = get_stream s
   \<and> get_modifiers (reset_maps s) = get_modifiers s
   \<and> get_bounds (reset_maps s) = get_bounds s
   \<and> get_lod_count (reset_maps s) = get_lod_count s
   \<and> is_streaming_enabled (reset_maps s) = is_streaming_enabled s
   \<and> get_block_size (reset_maps s) = get_block_size s"
  by (simp add: reset_maps_def reset_maps_no_settings_lock_def get_generator_def get_stream_def
      get_modifiers_def get_bounds_def get_lod_count_def is_streaming_enabled_def
      get_block_size_def VoxelDataMap_get_block_size_def)

text \<open>
  C10. A freshly constructed store has LOD count 1 and streaming enabled, so no block
  counts as loaded in it: every block is absent and treated as not yet loaded.
\<close>

theorem fresh_store_defaults:
  "get_lod_count (VoxelData_new po2) = 1
   \<and> is_streaming_enabled (VoxelData_new po2)
   \<and> \<not> is_block_loaded (VoxelData_new po2) bp"
  by (simp add: get_lod_count_def is_streaming_enabled_def VoxelData_new_def is_block_loaded_def
      has_block_def VoxelDataMap_has_block_def)

theorem fresh_store_defaults_witness:
  "get_lod_count (VoxelData_new 4) = 1
   \<and> is_streaming_enabled (VoxelData_new 4)
   \<and> \<not> is_block_loaded (VoxelData_new 4) (0, 0, 0)"
  using fresh_store_defaults[of 4 "(0, 0, 0)"] by simp

subsection \<open>What \<open>write_box\<close> writes\<close>

lemma clip_range_contains:
  "clip_range p s lp ls = (q, w) \<Longrightarrow> in_range q w v \<longleftrightarrow> in_range p s v \<and> in_range lp ls v"
  by (auto simp: Let_def)

lemma clipped_contains: "box_contains (clipped a b) p \<longleftrightarrow> box_contains a p \<and> box_contains b p"
proof -
  obtain x y z where p: "p = (x, y, z)" by (cases p)
  obtain px py pz where ap: "box_pos a = (px, py, pz)" by (cases "box_pos a")
  obtain sx sy sz where as: "box_size a = (sx, sy, sz)" by (cases "box_size a")
  obtain lx ly lz where bp: "box_pos b = (lx, ly, lz)" by (cases "box_pos b")
  obtain tx ty tz where bs: "box_size b = (tx, ty, tz)" by (cases "box_size b")
  obtain qx wx where cx: "clip_range px sx lx tx = (qx, wx)" by (cases "clip_range px sx lx tx")
  obtain qy wy where cy: "clip_range py sy ly ty = (qy, wy)" by (cases "clip_range py sy ly ty")
  obtain qz wz where cz: "clip_range pz sz lz tz = (qz, wz)" by (cases "clip_range pz sz lz tz")
  have "box_contains (clipped a b) p \<longleftrightarrow> in_range qx wx x \<and> in_range qy wy y \<and> in_range qz wz z"
    using p ap as bp bs cx cy cz
    by (simp add: clipped_def del: clip_range.simps in_range.simps)
  also have "\<dots> \<longleftrightarrow> (in_range px sx x \<and> in_range lx tx x) \<and> (in_range py sy y \<and> in_range ly ty y)
       \<and> (in_range pz sz z \<and> in_range lz tz z)"
    using clip_range_contains[OF cx] clip_range_contains[OF cy] clip_range_contains[OF cz]
    by blast
  also have "\<dots> \<longleftrightarrow> box_contains a p \<and> box_contains b p"
    using p ap as bp bs by (simp del: in_range.simps) blast
  finally show ?thesis .
qed

lemma to_local_origin:
  "v3_add (VoxelDataMap_to_local m p)
     (VoxelDataMap_block_to_voxel m (VoxelDataMap_voxel_to_block m p)) = p"
  by (cases p) (simp add: VoxelDataMap_to_local_def VoxelDataMap_block_to_voxel_def
      VoxelDataMap_voxel_to_block_def)

lemma shifted_contains:
  "box_contains \<lparr>box_pos = v3_sub (box_pos b) o', box_size = box_size b\<rparr> q
     \<longleftrightarrow> box_contains b (v3_add q o')"
  by (cases q; cases o'; cases "box_pos b"; cases "box_size b") auto

lemma cell_block_size [simp]:
  "block_size_pow2 (VoxelDataMap_write_box_cell vb ch action gen bp m) = block_size_pow2 m"
  by (simp add: VoxelDataMap_write_box_cell_def Let_def)

lemma cell_get_block_size [simp]:
  "VoxelDataMap_get_block_size (VoxelDataMap_write_box_cell vb ch action gen bp m)
     = VoxelDataMap_get_block_size m"
  by (simp add: VoxelDataMap_get_block_size_def)

lemma cell_other_block:
  "bq \<noteq> bp \<Longrightarrow>
   stored_buffer (VoxelDataMap_write_box_cell vb ch action gen bp m) bq = stored_buffer m bq"
  by (simp add: VoxelDataMap_write_box_cell_def Let_def stored_buffer_def)

lemma cell_same_block:
  "stored_buffer (VoxelDataMap_write_box_cell vb ch action gen bp m) bp =
     Some (VoxelBufferInternal_write_box
       (case stored_buffer m bp of
          Some b \<Rightarrow> b
        | None \<Rightarrow> gen (VoxelBufferInternal_create (v3_create (VoxelDataMap_get_block_size m)))
                    (VoxelDataMap_block_to_voxel m bp))
       (clipped \<lparr>box_pos = v3_sub (box_pos vb) (VoxelDataMap_block_to_voxel m bp),
                 box_size = box_size vb\<rparr>
                \<lparr>box_pos = (0, 0, 0), box_size = v3_create (VoxelDataMap_get_block_size m)\<rparr>)
       ch action (VoxelDataMap_block_to_voxel m bp))"
  by (simp add: VoxelDataMap_write_box_cell_def Let_def stored_buffer_def VoxelDataMap_get_block_def
      split: option.splits)

lemma write_box_outside:
  assumes "\<not> (box_contains vb (v3_add q o') \<and> c = ch)"
  shows "VoxelBufferInternal_get_voxel
           (VoxelBufferInternal_write_box b
              (clipped \<lparr>box_pos = v3_sub (box_pos vb) o', box_size = box_size vb\<rparr> lim) ch action o')
           q c
         = VoxelBufferInternal_get_voxel b q c"
  using assms
  by (auto simp: VoxelBufferInternal_get_voxel_def VoxelBufferInternal_write_box_def
      clipped_contains shifted_contains)

lemma observed_voxel_cong:
  assumes "block_size_pow2 m' = block_size_pow2 m"
    and "stored_buffer m' (VoxelDataMap_voxel_to_block m p)
           = stored_buffer m (VoxelDataMap_voxel_to_block m p)"
  shows "observed_voxel m' gen p c = observed_voxel m gen p c"
proof -
  have bs: "VoxelDataMap_get_block_size m' = VoxelDataMap_get_block_size m"
    using assms(1) by (simp add: VoxelDataMap_get_block_size_def)
  have "VoxelDataMap_voxel_to_block m' p = VoxelDataMap_voxel_to_block m p"
    "VoxelDataMap_to_local m' p = VoxelDataMap_to_local m p"
    "\<And>bp. VoxelDataMap_block_to_voxel m' bp = VoxelDataMap_block_to_voxel m bp"
    by (simp_all add: VoxelDataMap_voxel_to_block_def VoxelDataMap_to_local_def
        VoxelDataMap_block_to_voxel_def bs)
  then show ?thesis
    unfolding observed_voxel_def using assms(2) bs by (simp add: Let_def split: option.splits)
qed

lemma observed_voxel_stored:
  assumes "block_size_pow2 m' = block_size_pow2 m"
    and "stored_buffer m' (VoxelDataMap_voxel_to_block m p) = Some b'"
    and "VoxelBufferInternal_get_voxel b' (VoxelDataMap_to_local m p) c = observed_voxel m gen p c"
  shows "observed_voxel m' gen p c = observed_voxel m gen p c"
proof -
  have bs: "VoxelDataMap_get_block_size m' = VoxelDataMap_get_block_size m"
    using assms(1) by (simp add: VoxelDataMap_get_block_size_def)
  have "VoxelDataMap_voxel_to_block m' p = VoxelDataMap_voxel_to_block m p"
    "VoxelDataMap_to_local m' p = VoxelDataMap_to_local m p"
    by (simp_all add: VoxelDataMap_voxel_to_block_def VoxelDataMap_to_local_def bs)
  then have "observed_voxel m' gen p c
               = VoxelBufferInternal_get_voxel b' (VoxelDataMap_to_local m p) c"
    unfolding observed_voxel_def using assms(2) by simp
  then show ?thesis using assms(3) by simp
qed

lemma cell_observed:
  assumes "\<not> (box_contains vb p \<and> c = ch)"
  shows "observed_voxel (VoxelDataMap_write_box_cell vb ch action gen bp m) gen p c
         = observed_voxel m gen p c"
proof (cases "VoxelDataMap_voxel_to_block m p = bp")
  case False
  then show ?thesis
    by (intro observed_voxel_cong) (simp_all add: cell_other_block)
next
  case True
  have out: "\<not> (box_contains vb (v3_add (VoxelDataMap_to_local m p)
                 (VoxelDataMap_block_to_voxel m bp)) \<and> c = ch)"
    using assms True to_local_origin[of m p] by simp
  show ?thesis
  proof (rule observed_voxel_stored)
    show "block_size_pow2 (VoxelDataMap_write_box_cell vb ch action gen bp m) = block_size_pow2 m"
      by simp
    show "stored_buffer (VoxelDataMap_write_box_cell vb ch action gen bp m)
            (VoxelDataMap_voxel_to_block m p) = Some (VoxelBufferInternal_write_box
       (case stored_buffer m bp of
          Some b \<Rightarrow> b
        | None \<Rightarrow> gen (VoxelBufferInternal_create (v3_create (VoxelDataMap_get_block_size m)))
                    (VoxelDataMap_block_to_voxel m bp))
       (clipped \<lparr>box_pos = v3_sub (box_pos vb) (VoxelDataMap_block_to_voxel m bp),
                 box_size = box_size vb\<rparr>
                \<lparr>box_pos = (0, 0, 0), box_size = v3_create (VoxelDataMap_get_block_size m)\<rparr>)
       ch action (VoxelDataMap_block_to_voxel m bp))"
      using True cell_same_block[of vb ch action gen bp m] by simp
    show "VoxelBufferInternal_get_voxel (VoxelBufferInternal_write_box
       (case stored_buffer m bp of
          Some b \<Rightarrow> b
        | None \<Rightarrow> gen (VoxelBufferInternal_create (v3_create (VoxelDataMap_get_block_size m)))
                    (VoxelDataMap_block_to_voxel m bp))
       (clipped \<lparr>box_pos = v3_sub (box_pos vb) (VoxelDataMap_block_to_voxel m bp),
                 box_size = box_size vb\<rparr>
                \<lparr>box_pos = (0, 0, 0), box_size = v3_create (VoxelDataMap_get_block_size m)\<rparr>)
       ch action (VoxelDataMap_block_to_voxel m bp)) (VoxelDataMap_to_local m p) c
       = observed_voxel m gen p c"
      unfolding write_box_outside[OF out] observed_voxel_def using True by simp
  qed
qed

lemma fold_cells_block_size [simp]:
  "VoxelDataMap_get_block_size (fold (VoxelDataMap_write_box_cell vb ch action gen) bps m)
     = VoxelDataMap_get_block_size m"
  by (induction bps arbitrary: m) simp_all

lemma fold_cells_observed:
  assumes "\<not> (box_contains vb p \<and> c = ch)"
  shows "observed_voxel (fold (VoxelDataMap_write_box_cell vb ch action gen) bps m) gen p c
         = observed_voxel m gen p c"
  using assms by (induction bps arbitrary: m) (simp_all add: cell_observed)

lemma fold_cells_stored:
  "stored_buffer (fold (VoxelDataMap_write_box_cell vb ch action gen) bps m) bq \<noteq> None
     \<longleftrightarrow> stored_buffer m bq \<noteq> None \<or> bq \<in> set bps"
proof (induction bps arbitrary: m)
  case Nil
  then show ?case by simp
next
  case (Cons bp bps)
  show ?case
    using Cons.IH[of "VoxelDataMap_write_box_cell vb ch action gen bp m"]
      cell_other_block[of bq bp vb ch action gen m] cell_same_block[of vb ch action gen bp m]
    by (cases "bq = bp") auto
qed

lemma stored_voxel_observed:
  "stored_voxel m p c =
     (if stored_buffer m (VoxelDataMap_voxel_to_block m p) \<noteq> None
      then Some (observed_voxel m gen p c) else None)"
  by (auto simp: stored_voxel_def observed_voxel_def Let_def)

lemma fold_cells_pow2 [simp]:
  "block_size_pow2 (fold (VoxelDataMap_write_box_cell vb ch action gen) bps m) = block_size_pow2 m"
  by (induction bps arbitrary: m) simp_all

lemma map_write_box_outside:
  assumes "\<not> (box_contains vb p \<and> c = ch)"
  shows "stored_voxel (VoxelDataMap_write_box m vb ch action gen) p c =
     (if stored_buffer m (VoxelDataMap_voxel_to_block m p) \<noteq> None
         \<or> VoxelDataMap_voxel_to_block m p
              \<in> set (cells_zxy (downscaled vb (VoxelDataMap_get_block_size m)))
      then Some (observed_voxel m gen p c) else None)"
proof -
  let ?m' = "fold (VoxelDataMap_write_box_cell vb ch action gen)
               (cells_zxy (downscaled vb (VoxelDataMap_get_block_size m))) m"
  have vb: "VoxelDataMap_voxel_to_block ?m' p = VoxelDataMap_voxel_to_block m p"
    by (simp add: VoxelDataMap_voxel_to_block_def)
  have "stored_voxel ?m' p c =
     (if stored_buffer ?m' (VoxelDataMap_voxel_to_block ?m' p) \<noteq> None
      then Some (observed_voxel ?m' gen p c) else None)"
    by (rule stored_voxel_observed)
  also have "\<dots> = (if stored_buffer m (VoxelDataMap_voxel_to_block m p) \<noteq> None
         \<or> VoxelDataMap_voxel_to_block m p
              \<in> set (cells_zxy (downscaled vb (VoxelDataMap_get_block_size m)))
      then Some (observed_voxel m gen p c) else None)"
    unfolding vb fold_cells_stored fold_cells_observed[OF assms] by simp
  finally show ?thesis unfolding VoxelDataMap_write_box_def .
qed

lemma downscale_range_touch:
  assumes step: "0 < step" and d: "downscale_range p s step = (q, w)" and i: "in_range q w i"
  shows "\<exists>v. in_range p s v \<and> v div step = i"
proof -
  have s: "0 < s" using d i by (auto split: if_splits)
  with d have q: "q = p div step" and w: "w = (p + s - 1) div step - p div step + 1" by auto
  from i q w have lo: "p div step \<le> i" and hi: "i \<le> (p + s - 1) div step" by auto
  have hi': "i * step \<le> p + s - 1"
  proof -
    have "i * step \<le> ((p + s - 1) div step) * step" using hi step by (simp add: mult_right_mono)
    also have "\<dots> \<le> p + s - 1" using step
      by (metis mult.commute pos_mod_sign add_le_cancel_left mult_div_mod_eq add.right_neutral)
    finally show ?thesis .
  qed
  show ?thesis
  proof (cases "p \<le> i * step")
    case True
    then have "in_range p s (i * step)" using hi' by simp
    moreover have "(i * step) div step = i" using step by simp
    ultimately show ?thesis by blast
  next
    case False
    then have "i * step \<le> p" by simp
    then have "i \<le> p div step" using step
      by (metis zdiv_mono1 nonzero_mult_div_cancel_right less_irrefl)
    with lo have "p div step = i" by simp
    moreover have "in_range p s p" using s by simp
    ultimately show ?thesis by blast
  qed
qed

lemma downscaled_touch:
  assumes "0 < step" "box_contains (downscaled b step) c"
  shows "\<exists>p. box_contains b p \<and> v3_floordiv p step = c"
proof -
  obtain i j k where c: "c = (i, j, k)" by (cases c)
  obtain px py pz where bp: "box_pos b = (px, py, pz)" by (cases "box_pos b")
  obtain sx sy sz where bs: "box_size b = (sx, sy, sz)" by (cases "box_size b")
  obtain qx wx where dx: "downscale_range px sx step = (qx, wx)"
    by (cases "downscale_range px sx step")
  obtain qy wy where dy: "downscale_range py sy step = (qy, wy)"
    by (cases "downscale_range py sy step")
  obtain qz wz where dz: "downscale_range pz sz step = (qz, wz)"
    by (cases "downscale_range pz sz step")
  from assms(2) have r: "in_range qx wx i" "in_range qy wy j" "in_range qz wz k"
    using c bp bs dx dy dz
    by (simp_all add: downscaled_def del: downscale_range.simps in_range.simps)
  obtain x where x: "in_range px sx x" "x div step = i"
    using downscale_range_touch[OF assms(1) dx r(1)] by blast
  obtain y where y: "in_range py sy y" "y div step = j"
    using downscale_range_touch[OF assms(1) dy r(2)] by blast
  obtain z where z: "in_range pz sz z" "z div step = k"
    using downscale_range_touch[OF assms(1) dz r(3)] by blast
  have "box_contains b (x, y, z)" using x(1) y(1) z(1) bp bs by (simp del: in_range.simps)
  moreover have "v3_floordiv (x, y, z) step = c" using x(2) y(2) z(2) c by simp
  ultimately show ?thesis by blast
qed

lemma untouched_block_not_in_cells:
  assumes "\<forall>p. box_contains box p \<longrightarrow> VoxelDataMap_voxel_to_block m p \<noteq> bp"
  shows "bp \<notin> set (cells_zxy (downscaled box (VoxelDataMap_get_block_size m)))"
proof
  assume "bp \<in> set (cells_zxy (downscaled box (VoxelDataMap_get_block_size m)))"
  then have "box_contains (downscaled box (VoxelDataMap_get_block_size m)) bp"
    by (simp add: cells_zxy_iff)
  from downscaled_touch[OF block_size_pos this]
  obtain p where "box_contains box p" "VoxelDataMap_voxel_to_block m p = bp"
    unfolding VoxelDataMap_voxel_to_block_def by blast
  with assms show False by blast
qed

lemma cell_other_entry:
  "bq \<noteq> bp \<Longrightarrow>
   blocks (VoxelDataMap_write_box_cell vb ch action gen bp m) bq = blocks m bq"
  by (simp add: VoxelDataMap_write_box_cell_def Let_def)

lemma fold_cells_other_entry:
  "bq \<notin> set bps \<Longrightarrow>
   blocks (fold (VoxelDataMap_write_box_cell vb ch action gen) bps m) bq = blocks m bq"
  by (induction bps arbitrary: m) (simp_all add: cell_other_entry)

lemma map_write_box_untouched:
  assumes "\<forall>p. box_contains box p \<longrightarrow> VoxelDataMap_voxel_to_block m p \<noteq> bp"
  shows "blocks (VoxelDataMap_write_box m box ch action gen) bp = blocks m bp"
  unfolding VoxelDataMap_write_box_def
  by (rule fold_cells_other_entry) (rule untouched_block_not_in_cells[OF assms])

lemma write_box_loaded:
  "is_area_loaded s (clipped B (get_bounds s)) \<Longrightarrow>
   write_box s B ch action =
     (clipped B (get_bounds s),
      s\<lparr>lods := (lods s)(0 := VoxelDataMap_write_box (lods s 0) (clipped B (get_bounds s)) ch action
         (\<lambda>voxels pos. case generator s of Some g \<Rightarrow> g voxels pos 0 | None \<Rightarrow> voxels))\<rparr>)"
  by (simp add: write_box_def Let_def)

lemmas scenario_defs = loaded_store_def straddling_box_def scenario_store_def bounds_256_def
      VoxelData_new_def try_set_block_buffer_def zero_block_def VoxelBufferInternal_create_def
      get_block_size_def VoxelDataMap_get_block_size_def v3_create_def VoxelDataMap_has_block_def
      get_bounds_def clipped_def

lemma loaded_store_area: "is_area_loaded loaded_store (clipped straddling_box (get_bounds loaded_store))"
  by (simp add: loaded_store_def straddling_box_def scenario_store_def bounds_256_def
      VoxelData_new_def try_set_block_buffer_def zero_block_def VoxelBufferInternal_create_def
      get_block_size_def VoxelDataMap_get_block_size_def v3_create_def VoxelDataMap_has_block_def
      get_bounds_def clipped_def is_area_loaded_def is_streaming_enabled_def
      VoxelDataMap_is_area_fully_loaded_def downscaled_def cells_zxy_def)

text \<open>
  C2. For every box \<open>B\<close>, when \<open>write_box\<close> goes ahead (the clipped area is loaded): the
  box it returns is \<open>B\<close> clipped to the bounds, which contains exactly the voxels of
  both \<open>B\<close> and the bounds; the maps of the other LODs are untouched; a voxel stored
  outside that box, or on another channel, keeps its value; outside that box, or on
  another channel, what is stored afterwards does not depend on the action at all; and
  the entry of a block that holds no voxel of that box is what it was.
\<close>

theorem write_box_clips_to_bounds:
  assumes "is_area_loaded s (clipped B (get_bounds s))"
  shows "fst (write_box s B ch action) = clipped B (get_bounds s)
   \<and> (\<forall>p. box_contains (fst (write_box s B ch action)) p
            \<longleftrightarrow> box_contains B p \<and> box_contains (get_bounds s) p)
   \<and> (\<forall>l. l \<noteq> 0 \<longrightarrow> lods (snd (write_box s B ch action)) l = lods s l)
   \<and> (\<forall>p c v. \<not> (box_contains (clipped B (get_bounds s)) p \<and> c = ch) \<longrightarrow>
          stored_voxel (lods s 0) p c = Some v \<longrightarrow>
          stored_voxel (lods (snd (write_box s B ch action)) 0) p c = Some v)
   \<and> (\<forall>p c action'. \<not> (box_contains (clipped B (get_bounds s)) p \<and> c = ch) \<longrightarrow>
          stored_voxel (lods (snd (write_box s B ch action)) 0) p c
            = stored_voxel (lods (snd (write_box s B ch action')) 0) p c)
   \<and> (\<forall>bp. (\<forall>p. box_contains (clipped B (get_bounds s)) p \<longrightarrow> voxel_to_block s p \<noteq> bp) \<longrightarrow>
          blocks (lods (snd (write_box s B ch action)) 0) bp = blocks (lods s 0) bp)"
proof -
  let ?vb = "clipped B (get_bounds s)"
  let ?gen = "\<lambda>voxels pos. case generator s of Some g \<Rightarrow> g voxels pos 0 | None \<Rightarrow> voxels"
  have w: "\<And>a. lods (snd (write_box s B ch a)) 0 = VoxelDataMap_write_box (lods s 0) ?vb ch a ?gen"
    using assms by (simp add: write_box_loaded)
  have 1: "fst (write_box s B ch action) = ?vb"
    using assms by (simp add: write_box_loaded)
  have 2: "\<forall>p. box_contains (fst (write_box s B ch action)) p
            \<longleftrightarrow> box_contains B p \<and> box_contains (get_bounds s) p"
    unfolding 1 by (simp add: clipped_contains)
  have 3: "\<forall>l. l \<noteq> 0 \<longrightarrow> lods (snd (write_box s B ch action)) l = lods s l"
    using assms by (simp add: write_box_loaded)
  have 4: "stored_voxel (lods (snd (write_box s B ch action)) 0) p c = Some v"
    if out: "\<not> (box_contains ?vb p \<and> c = ch)" and st: "stored_voxel (lods s 0) p c = Some v"
    for p c v
  proof -
    from st have sb: "stored_buffer (lods s 0) (VoxelDataMap_voxel_to_block (lods s 0) p) \<noteq> None"
      by (auto simp: stored_voxel_def)
    with st have "observed_voxel (lods s 0) ?gen p c = v"
      by (simp add: stored_voxel_observed[where gen = ?gen])
    then show ?thesis
      unfolding w map_write_box_outside[OF out] using sb by simp
  qed
  have 5: "stored_voxel (lods (snd (write_box s B ch action)) 0) p c
            = stored_voxel (lods (snd (write_box s B ch action')) 0) p c"
    if out: "\<not> (box_contains ?vb p \<and> c = ch)" for p c action'
    unfolding w map_write_box_outside[OF out] ..
  have 6: "blocks (lods (snd (write_box s B ch action)) 0) bp = blocks (lods s 0) bp"
    if "\<forall>p. box_contains ?vb p \<longrightarrow> voxel_to_block s p \<noteq> bp" for bp
    unfolding w using that by (intro map_write_box_untouched) (simp add: voxel_to_block_def)
  from 1 2 3 4 5 6 show ?thesis by blast
qed

theorem write_box_clips_to_bounds_witness:
  "is_area_loaded loaded_store (clipped straddling_box (get_bounds loaded_store))
   \<and> fst (write_box loaded_store straddling_box 0 (\<lambda>p v. 5))
       = \<lparr>box_pos = (0, 0, 0), box_size = (8, 8, 8)\<rparr>
   \<and> stored_voxel (lods (snd (write_box loaded_store straddling_box 0 (\<lambda>p v. 5))) 0) (9, 9, 9) 0
       = Some 0
   \<and> stored_voxel (lods (snd (write_box loaded_store straddling_box 0 (\<lambda>p v. 5))) 0) (3, 3, 3) 0
       = Some 5
   \<and> lods (snd (write_box loaded_store straddling_box 0 (\<lambda>p v. 5))) 1 = lods loaded_store 1
   \<and> stored_voxel (lods (snd (write_box loaded_store straddling_box 0 (\<lambda>p v. 5))) 0) (9, 9, 9) 0
       = stored_voxel (lods (snd (write_box loaded_store straddling_box 0 (\<lambda>p v. 7))) 0)
           (9, 9, 9) 0
   \<and> blocks (lods (snd (write_box loaded_store straddling_box 0 (\<lambda>p v. 5))) 0) (1, 0, 0)
       = blocks (lods loaded_store 0) (1, 0, 0)"
proof -
  note t = write_box_clips_to_bounds[OF loaded_store_area, of 0 "\<lambda>p v. 5"]
  have cl: "clipped straddling_box (get_bounds loaded_store)
              = \<lparr>box_pos = (0, 0, 0), box_size = (8, 8, 8)\<rparr>"
    by (simp add: scenario_defs)
  from t cl have a: "fst (write_box loaded_store straddling_box 0 (\<lambda>p v. 5))
       = \<lparr>box_pos = (0, 0, 0), box_size = (8, 8, 8)\<rparr>"
    by simp
  have out: "\<not> (box_contains (clipped straddling_box (get_bounds loaded_store)) (9, 9, 9)
              \<and> (0::nat) = 0)"
    unfolding cl by simp
  have before: "stored_voxel (lods loaded_store 0) (9, 9, 9) 0 = Some 0"
    by (simp add: scenario_defs stored_voxel_def stored_buffer_def VoxelDataMap_voxel_to_block_def
        VoxelDataMap_to_local_def VoxelBufferInternal_get_voxel_def)
  from t out before
  have b: "stored_voxel (lods (snd (write_box loaded_store straddling_box 0 (\<lambda>p v. 5))) 0)
             (9, 9, 9) 0 = Some 0"
    by blast
  have c: "stored_voxel (lods (snd (write_box loaded_store straddling_box 0 (\<lambda>p v. 5))) 0)
             (3, 3, 3) 0 = Some 5"
    unfolding write_box_loaded[OF loaded_store_area] cl
    by (simp add: scenario_defs stored_voxel_def stored_buffer_def VoxelDataMap_voxel_to_block_def
        VoxelDataMap_to_local_def VoxelBufferInternal_get_voxel_def VoxelDataMap_write_box_def
        downscaled_def cells_zxy_def VoxelDataMap_write_box_cell_def VoxelDataMap_get_block_def
        VoxelDataMap_block_to_voxel_def VoxelBufferInternal_write_box_def Let_def)
  from t have d: "lods (snd (write_box loaded_store straddling_box 0 (\<lambda>p v. 5))) 1
                    = lods loaded_store 1"
    by simp
  from t out
  have e: "stored_voxel (lods (snd (write_box loaded_store straddling_box 0 (\<lambda>p v. 5))) 0)
             (9, 9, 9) 0
           = stored_voxel (lods (snd (write_box loaded_store straddling_box 0 (\<lambda>p v. 7))) 0)
               (9, 9, 9) 0"
    by blast
  have far: "\<forall>p. box_contains (clipped straddling_box (get_bounds loaded_store)) p
               \<longrightarrow> voxel_to_block loaded_store p \<noteq> (1, 0, 0)"
    unfolding cl
    by (auto simp: voxel_to_block_def VoxelDataMap_voxel_to_block_def scenario_defs)
  from t far
  have f: "blocks (lods (snd (write_box loaded_store straddling_box 0 (\<lambda>p v. 5))) 0) (1, 0, 0)
             = blocks (lods loaded_store 0) (1, 0, 0)"
    by blast
  from loaded_store_area a b c d e f show ?thesis by blast
qed

subsection \<open>How \<open>write_box\<close> fills an absent block\<close>

lemma write_box_ignores_modifiers:
  "write_box (s\<lparr>modifiers := ms\<rparr>) B ch action
     = (fst (write_box s B ch action), (snd (write_box s B ch action))\<lparr>modifiers := ms\<rparr>)"
  by (simp add: write_box_def Let_def is_area_loaded_def is_streaming_enabled_def get_bounds_def)

lemma generating_area: "is_area_loaded generating_store (clipped straddling_box (get_bounds generating_store))"
  by (simp add: is_area_loaded_def is_streaming_enabled_def generating_store_def)

text \<open>
  With streaming disabled the gate does not cancel: on a store without any block, a box
  whose block at the origin has no LOD-0 entry is written all the same; \<open>write_box\<close>
  returns the clipped box, not the empty one, and the block is in the map afterwards.
\<close>

theorem write_box_absent_block_counterexample:
  "box_contains (clipped straddling_box (get_bounds generating_store)) (3, 4, 5)
   \<and> voxel_to_block generating_store (3, 4, 5) = (0, 0, 0)
   \<and> \<not> has_block generating_store (0, 0, 0) 0
   \<and> fst (write_box generating_store straddling_box 0 keep_value)
       = \<lparr>box_pos = (0, 0, 0), box_size = (8, 8, 8)\<rparr>
   \<and> fst (write_box generating_store straddling_box 0 keep_value) \<noteq> Box3i_default
   \<and> has_block (snd (write_box generating_store straddling_box 0 keep_value)) (0, 0, 0) 0
   \<and> snd (write_box generating_store straddling_box 0 keep_value) \<noteq> generating_store"
proof -
  have cl: "clipped straddling_box (get_bounds generating_store)
              = \<lparr>box_pos = (0, 0, 0), box_size = (8, 8, 8)\<rparr>"
    by (simp add: scenario_defs generating_store_def)
  have a: "box_contains (clipped straddling_box (get_bounds generating_store)) (3, 4, 5)"
    unfolding cl by simp
  have b: "voxel_to_block generating_store (3, 4, 5) = (0, 0, 0)"
    by (simp add: voxel_to_block_def VoxelDataMap_voxel_to_block_def scenario_defs
        generating_store_def)
  have c: "\<not> has_block generating_store (0, 0, 0) 0"
    by (simp add: has_block_def scenario_defs generating_store_def)
  have d: "fst (write_box generating_store straddling_box 0 keep_value)
             = \<lparr>box_pos = (0, 0, 0), box_size = (8, 8, 8)\<rparr>"
    unfolding write_box_loaded[OF generating_area] cl by simp
  have e: "fst (write_box generating_store straddling_box 0 keep_value) \<noteq> Box3i_default"
    unfolding d by (simp add: Box3i_default_def)
  have f: "has_block (snd (write_box generating_store straddling_box 0 keep_value)) (0, 0, 0) 0"
    unfolding write_box_loaded[OF generating_area] cl
    by (simp add: has_block_def scenario_defs generating_store_def VoxelDataMap_write_box_def
        downscaled_def cells_zxy_def VoxelDataMap_write_box_cell_def Let_def)
  from c f have g: "snd (write_box generating_store straddling_box 0 keep_value)
                      \<noteq> generating_store"
    by auto
  from a b c d e f g show ?thesis by blast
qed

text \<open>
  C3, at a concrete store: streaming is disabled, so the area counts as loaded although
  the block at the origin is absent; the generator writes ones and the only modifier
  writes nines. \<open>write_box\<close> with the identity action leaves the value 1 of the
  generator in the new block, where the generator followed by the modifier stack gives 9:
  the callback that \<open>write_box\<close> hands to the map runs the generator only.
\<close>

theorem write_box_synthesis_skips_modifiers:
  "is_area_loaded generating_store (clipped straddling_box (get_bounds generating_store))
   \<and> \<not> has_block generating_store (0, 0, 0) 0
   \<and> stored_voxel (lods (snd (write_box generating_store straddling_box 0 (\<lambda>p v. v))) 0)
         (9, 9, 9) 0 = Some 1
   \<and> VoxelBufferInternal_get_voxel
         (VoxelModifierStack_apply (get_modifiers generating_store)
            (ones_generator (VoxelBufferInternal_create (16, 16, 16)) (0, 0, 0) 0) (0, 0, 0))
         (9, 9, 9) 0 = 9"
proof -
  have cl: "clipped straddling_box (get_bounds generating_store)
              = \<lparr>box_pos = (0, 0, 0), box_size = (8, 8, 8)\<rparr>"
    by (simp add: scenario_defs generating_store_def)
  have a: "\<not> has_block generating_store (0, 0, 0) 0"
    by (simp add: has_block_def scenario_defs generating_store_def)
  have b: "stored_voxel (lods (snd (write_box generating_store straddling_box 0 (\<lambda>p v. v))) 0)
         (9, 9, 9) 0 = Some 1"
    unfolding write_box_loaded[OF generating_area] cl
    by (simp add: scenario_defs generating_store_def ones_generator_def
        stored_voxel_def stored_buffer_def VoxelDataMap_voxel_to_block_def
        VoxelDataMap_to_local_def VoxelBufferInternal_get_voxel_def VoxelDataMap_write_box_def
        downscaled_def cells_zxy_def VoxelDataMap_write_box_cell_def VoxelDataMap_get_block_def
        VoxelDataMap_block_to_voxel_def VoxelBufferInternal_write_box_def Let_def)
  have c: "VoxelBufferInternal_get_voxel
         (VoxelModifierStack_apply (get_modifiers generating_store)
            (ones_generator (VoxelBufferInternal_create (16, 16, 16)) (0, 0, 0) 0) (0, 0, 0))
         (9, 9, 9) 0 = 9"
    by (simp add: get_modifiers_def generating_store_def VoxelModifierStack_apply_def
        nines_modifier_def VoxelBufferInternal_get_voxel_def)
  from generating_area a b c show ?thesis by blast
qed

subsection \<open>Point access\<close>









section \<open>Properties of the block allocator\<close>

lemma allocate_used: "used_blocks (snd (allocate p sz)) = used_blocks p + 1"
  by (simp add: allocate_def Let_def)

lemma recycle_used: "used_blocks (recycle p b sz) = used_blocks p - 1"
  by (simp add: recycle_def)

lemma run_calls_counter:
  "run_calls cs (p, out) = Some (p', out') \<Longrightarrow>
   used_blocks p = of_nat (length out) \<Longrightarrow>
   used_blocks p' = of_nat (length out')"
proof (induction cs arbitrary: p out)
  case Nil
  then show ?case by simp
next
  case (Cons call cs)
  show ?case
  proof (cases call)
    case (Allocate sz)
    obtain b p1 where a: "allocate p sz = (b, p1)" by (cases "allocate p sz")
    have "used_blocks p1 = of_nat (length ((b, sz) # out))"
      using allocate_used[of p sz] a Cons.prems(2) by simp
    moreover have "run_calls cs (p1, (b, sz) # out) = Some (p', out')"
      using Cons.prems(1) Allocate a by simp
    ultimately show ?thesis by (rule Cons.IH[rotated])
  next
    case (Recycle b sz)
    have mem: "(b, sz) \<in> set out"
      using Cons.prems(1) Recycle by (simp split: if_splits)
    then obtain k where k: "length out = Suc k" by (cases out) auto
    have len: "length (remove1 (b, sz) out) = k"
      using mem k by (simp add: length_remove1)
    have "used_blocks (recycle p b sz) = of_nat (length (remove1 (b, sz) out))"
      by (simp add: recycle_used Cons.prems(2) len k)
    moreover have "run_calls cs (recycle p b sz, remove1 (b, sz) out) = Some (p', out')"
      using Cons.prems(1) Recycle mem by simp
    ultimately show ?thesis by (rule Cons.IH[rotated])
  qed
qed

text \<open>
  C7. After any sequence of \<open>allocate\<close> and matched \<open>recycle\<close> calls on a new pool, the
  counter read by \<open>debug_get_used_blocks\<close> is the number of outstanding blocks modulo
  \<open>2 ^ 32\<close>, hence that number itself as long as fewer than \<open>2 ^ 32\<close> blocks are
  outstanding.
\<close>

theorem used_blocks_counts_outstanding:
  assumes "run_calls cs (VoxelMemoryPool_new, []) = Some (p, outstanding)"
  shows "unat (debug_get_used_blocks p) = length outstanding mod 2 ^ 32
    \<and> (length outstanding < 2 ^ 32 \<longrightarrow> unat (debug_get_used_blocks p) = length outstanding)"
proof -
  have "used_blocks p = of_nat (length outstanding)"
    using run_calls_counter[OF assms] by (simp add: VoxelMemoryPool_new_def)
  then have "unat (debug_get_used_blocks p) = length outstanding mod 2 ^ 32"
    by (simp add: debug_get_used_blocks_def unat_of_nat)
  then show ?thesis by simp
qed

theorem used_blocks_counts_outstanding_witness:
  "run_calls [Allocate 8, Allocate 8, Recycle 0 8, Allocate 4]
     (VoxelMemoryPool_new, [])
     = Some (\<lparr>pools = [8 \<mapsto> [0], 4 \<mapsto> []], used_blocks = 2, next_address = 3\<rparr>,
             [(2, 4), (1, 8)])
   \<and> length [(2::nat, 4::nat), (1, 8)] < 2 ^ 32
   \<and> unat (debug_get_used_blocks
        \<lparr>pools = [8 \<mapsto> [0], 4 \<mapsto> []], used_blocks = 2, next_address = 3\<rparr>)
       = length [(2::nat, 4::nat), (1, 8)]"
proof -
  have r: "run_calls [Allocate 8, Allocate 8, Recycle 0 8, Allocate 4]
     (VoxelMemoryPool_new, [])
     = Some (\<lparr>pools = [8 \<mapsto> [0], 4 \<mapsto> []], used_blocks = 2, next_address = 3\<rparr>,
             [(2, 4), (1, 8)])"
    by (simp add: VoxelMemoryPool_new_def allocate_def recycle_def get_or_create_pool_def Let_def
        fun_upd_twist)
  from used_blocks_counts_outstanding[OF r] r show ?thesis by simp
qed

lemma run_allocations:
  "\<exists>p' out'. run_calls (replicate n (Allocate sz)) (p, out) = Some (p', out')
     \<and> length out' = length out + n \<and> used_blocks p' = used_blocks p + of_nat n"
proof (induction n arbitrary: p out)
  case 0
  then show ?case by simp
next
  case (Suc n)
  obtain b p1 where a: "allocate p sz = (b, p1)" by (cases "allocate p sz")
  from Suc.IH[of p1 "(b, sz) # out"] obtain p' out' where
    "run_calls (replicate n (Allocate sz)) (p1, (b, sz) # out) = Some (p', out')"
    "length out' = length ((b, sz) # out) + n" "used_blocks p' = used_blocks p1 + of_nat n"
    by blast
  then show ?case using a allocate_used[of p sz] by simp
qed

text \<open>
  After \<open>2 ^ 32\<close> allocations and no \<open>recycle\<close> the 32-bit counter is back at 0 while
  \<open>2 ^ 32\<close> blocks are outstanding.
\<close>

theorem used_blocks_wraps_counterexample:
  "unat (debug_get_used_blocks
       (fst (the (run_calls (replicate 4294967296 (Allocate 1)) (VoxelMemoryPool_new, [])))))
     \<noteq> length (snd (the (run_calls (replicate 4294967296 (Allocate 1))
                                 (VoxelMemoryPool_new, []))))"
proof -
  obtain p' out' where
    r: "run_calls (replicate 4294967296 (Allocate 1)) (VoxelMemoryPool_new, []) = Some (p', out')"
    and l: "length out' = length ([] :: (nat \<times> nat) list) + 4294967296"
    and u: "used_blocks p' = used_blocks VoxelMemoryPool_new + of_nat 4294967296"
    using run_allocations[of 4294967296 1 VoxelMemoryPool_new "[]"] by blast
  have "used_blocks p' = 0" using u by (simp add: VoxelMemoryPool_new_def)
  then show ?thesis using r l by (simp add: debug_get_used_blocks_def)
qed

end
